theory Spec2Isabelle
  imports Main "HOL-Library.Sublist"
begin

section \<open>Python values as the script sees them\<close>

text \<open>
  A Python \<^verbatim>\<open>str\<close> is a sequence of Unicode code points, so it is modelled as a list of
  natural numbers. \<open>ustr\<close> turns an ASCII literal into that form.
\<close>

type_synonym pystr = "nat list"

definition ustr :: "string \<Rightarrow> pystr" where
  "ustr s = map of_char s"

text \<open>
  The scalars pandas hands out for a cell: a missing value, a bool, an integer, a float
  and a string. The script never computes with a float; it only formats it, so a float is
  carried as the text \<^verbatim>\<open>str()\<close> gives for it.
\<close>

datatype cell = NaN | BoolCell bool | IntCell int | FloatCell pystr | StrCell pystr

function str_nat :: "nat \<Rightarrow> pystr" where
  "str_nat n = (if n < 10 then [48 + n] else str_nat (n div 10) @ [48 + n mod 10])"
  by pat_completeness auto
termination
  by (relation "measure id") auto

declare str_nat.simps [simp del]

definition str_int :: "int \<Rightarrow> pystr" where
  "str_int i = (if i < 0 then 45 # str_nat (nat (- i)) else str_nat (nat i))"

text \<open>What an f-string field \<^verbatim>\<open>{v}\<close> inserts for a cell value.\<close>

fun py_str :: "cell \<Rightarrow> pystr" where
  "py_str NaN = ustr ''nan''"
| "py_str (BoolCell b) = (if b then ustr ''True'' else ustr ''False'')"
| "py_str (IntCell i) = str_int i"
| "py_str (FloatCell s) = s"
| "py_str (StrCell s) = s"

text \<open>\<^verbatim>\<open>str.isspace\<close> on one code point, and \<^verbatim>\<open>str.strip()\<close>.\<close>

definition py_isspace :: "nat \<Rightarrow> bool" where
  "py_isspace c =
     ((9 \<le> c \<and> c \<le> 13) \<or> (28 \<le> c \<and> c \<le> 32) \<or> c = 133 \<or> c = 160 \<or> c = 5760
      \<or> (8192 \<le> c \<and> c \<le> 8202) \<or> c = 8232 \<or> c = 8233 \<or> c = 8239 \<or> c = 8287
      \<or> c = 12288)"

definition py_strip :: "pystr \<Rightarrow> pystr" where
  "py_strip s = rev (dropWhile py_isspace (rev (dropWhile py_isspace s)))"

text \<open>The exceptions that can leave the script.\<close>

datatype error = KeyError pystr | UnicodeEncodeError nat

section \<open>Rows of the uploaded table\<close>

text \<open>
  \<^verbatim>\<open>df.iterrows()\<close> yields each row as a series indexed by the column names;
  \<^verbatim>\<open>row[key]\<close> raises \<^verbatim>\<open>KeyError\<close> for a name that is not a column. The
  review column holds text, so a row is a series of Python objects in which every
  value keeps the type it has in its column.
\<close>

type_synonym row = "(pystr \<times> cell) list"

record dataframe =
  columns :: "pystr list"
  cells :: "cell list list"

definition iterrows :: "dataframe \<Rightarrow> row list" where
  "iterrows df = map (zip (columns df)) (cells df)"

definition getitem :: "row \<Rightarrow> pystr \<Rightarrow> error + cell" where
  "getitem r key = (case map_of r key of None \<Rightarrow> Inl (KeyError key) | Some v \<Rightarrow> Inr v)"

section \<open>Detecting the review column (app.py, lines 60 to 70)\<close>

definition possible_review_cols :: "pystr list" where
  "possible_review_cols = [ustr ''review'', ustr ''review_text'', ustr ''text'', ustr ''comment'']"

text \<open>
  The \<^verbatim>\<open>for col in possible_review_cols\<close> loop with its \<^verbatim>\<open>break\<close>:
  \<open>None\<close> is the initial \<^verbatim>\<open>review_col = None\<close> surviving the loop.
\<close>

fun detect_review_col :: "pystr list \<Rightarrow> pystr list \<Rightarrow> pystr option" where
  "detect_review_col [] cols = None"
| "detect_review_col (col # rest) cols =
     (if col \<in> set cols then Some col else detect_review_col rest cols)"

text \<open>
  The branch on \<^verbatim>\<open>review_col is None\<close>: the error shown to the user carries
  \<^verbatim>\<open>list(df.columns)\<close>, and nothing below it runs.
\<close>

datatype resolve_error = ColumnNotFoundError "pystr list"

definition resolve :: "pystr list \<Rightarrow> resolve_error + pystr" where
  "resolve cols =
     (case detect_review_col possible_review_cols cols of
        None \<Rightarrow> Inl (ColumnNotFoundError cols)
      | Some review_col \<Rightarrow> Inr review_col)"

section \<open>The analysis loop (app.py, lines 79 to 116)\<close>

text \<open>
  The f-string of lines 86 to 95, cut at its two fields. It is a triple-quoted literal,
  so the line breaks, the sixteen spaces that indent each line and the remark after the
  closing quote of the review (with its check mark, U+2705) all belong to the prompt.
  Code point 34 is the double quote.
\<close>

definition prompt_head :: pystr where
  "prompt_head =
     ustr ''\<newline>                Analyze this Myntra product review:\<newline>                Review: '' @ [34]"

definition prompt_middle :: pystr where
  "prompt_middle =
     [34] @ ustr ''  # '' @ [9989] @ ustr '' Dynamic column\<newline>                Rating: ''"

definition prompt_tail :: pystr where
  "prompt_tail =
     ustr ''\<newline>\<newline>                Provide a concise analysis in this exact format:\<newline>                1. Sentiment: (Positive / Negative / Neutral)\<newline>                2. Key points: (Bullet list of 2-3 main pros/cons)\<newline>                3. Recommendation: (Yes / No / Maybe) - Brief reason\<newline>                ''"

text \<open>
  Building the prompt reads \<^verbatim>\<open>row[review_col]\<close> and then \<^verbatim>\<open>row['rating']\<close>, outside
  the \<^verbatim>\<open>try\<close>: a missing column raises out of the loop.
\<close>

definition build_prompt :: "pystr \<Rightarrow> row \<Rightarrow> error + pystr" where
  "build_prompt review_col r =
     (case getitem r review_col of
        Inl e \<Rightarrow> Inl e
      | Inr review \<Rightarrow>
          (case getitem r (ustr ''rating'') of
             Inl e \<Rightarrow> Inl e
           | Inr rating \<Rightarrow>
               Inr (prompt_head @ py_str review @ prompt_middle @ py_str rating @ prompt_tail)))"

text \<open>
  The external service, \<^verbatim>\<open>model.generate_content(prompt)\<close> followed by
  \<^verbatim>\<open>response.text\<close>: from its own state and the prompt it gives either the response
  text (\<open>Inr\<close>) or an exception, kept as the message \<^verbatim>\<open>str(e)\<close> (\<open>Inl\<close>), and a new
  state. The exception is any \<^verbatim>\<open>Exception\<close>, which is what the handler below catches.
  Nothing else is assumed about the service.
\<close>

type_synonym 's service = "'s \<Rightarrow> pystr \<Rightarrow> (pystr + pystr) \<times> 's"

text \<open>The \<^verbatim>\<open>try\<close>/\<^verbatim>\<open>except Exception\<close> of lines 97 to 101.\<close>

definition analysis_of :: "pystr + pystr \<Rightarrow> pystr" where
  "analysis_of outcome =
     (case outcome of
        Inr response_text \<Rightarrow> py_strip response_text
      | Inl e \<Rightarrow> ustr ''Error: Could not analyze review. ('' @ e @ ustr '')'')"

text \<open>
  The dictionary appended to \<^verbatim>\<open>results\<close> (lines 103 to 108), its keys in the order
  written; the three lookups are again outside the \<^verbatim>\<open>try\<close>.
\<close>

type_synonym pydict = "(pystr \<times> cell) list"

definition make_result :: "pystr \<Rightarrow> row \<Rightarrow> pystr \<Rightarrow> error + pydict" where
  "make_result review_col r analysis_text =
     (case getitem r (ustr ''product_name'') of
        Inl e \<Rightarrow> Inl e
      | Inr product_name \<Rightarrow>
          (case getitem r review_col of
             Inl e \<Rightarrow> Inl e
           | Inr review \<Rightarrow>
               (case getitem r (ustr ''rating'') of
                  Inl e \<Rightarrow> Inl e
                | Inr rating \<Rightarrow>
                    Inr [(ustr ''product_name'', product_name), (ustr ''review'', review),
                         (ustr ''rating'', rating), (ustr ''analysis'', StrCell analysis_text)])))"

text \<open>
  What the loop changes besides \<^verbatim>\<open>results\<close>: the service's state, the clock
  (\<^verbatim>\<open>time.sleep(0.5)\<close>, in milliseconds), the progress bar (the fraction
  \<^verbatim>\<open>(i + 1) / len(df)\<close>, kept as numerator and denominator) and the status line.
\<close>

record 's world =
  service_state :: 's
  clock_ms :: nat
  progress_bar :: "nat \<times> nat"
  status_text :: pystr

definition processed_text :: "nat \<Rightarrow> nat \<Rightarrow> pystr" where
  "processed_text k n = [9989] @ ustr '' Processed review '' @ str_nat k @ [47] @ str_nat n"

fun analysis_loop ::
  "'s service \<Rightarrow> pystr \<Rightarrow> nat \<Rightarrow> nat \<Rightarrow> row list \<Rightarrow> pydict list \<Rightarrow> 's world
     \<Rightarrow> error + pydict list \<times> 's world" where
  "analysis_loop gen review_col n i [] results w = Inr (results, w)"
| "analysis_loop gen review_col n i (r # rest) results w =
     (case build_prompt review_col r of
        Inl e \<Rightarrow> Inl e
      | Inr prompt \<Rightarrow>
          (case gen (service_state w) prompt of
             (outcome, s') \<Rightarrow>
               (case make_result review_col r (analysis_of outcome) of
                  Inl e \<Rightarrow> Inl e
                | Inr result \<Rightarrow>
                    analysis_loop gen review_col n (i + 1) rest (results @ [result])
                      (w\<lparr>service_state := s',
                         progress_bar := (i + 1, n),
                         status_text := processed_text (i + 1) n,
                         clock_ms := clock_ms w + 500\<rparr>))))"

definition analyze ::
  "'s service \<Rightarrow> dataframe \<Rightarrow> pystr \<Rightarrow> 's world \<Rightarrow> error + pydict list \<times> 's world" where
  "analyze gen df review_col w =
     analysis_loop gen review_col (length (cells df)) 0 (iterrows df) []
       (w\<lparr>progress_bar := (0, 1), status_text := []\<rparr>)"

subsection \<open>Reference notions for stating the analyzer's contract\<close>

text \<open>
  A table as \<^verbatim>\<open>pd.read_csv\<close> builds it: the column names are distinct and every row
  has one cell per column.
\<close>

definition wf_frame :: "dataframe \<Rightarrow> bool" where
  "wf_frame df =
     (distinct (columns df) \<and> list_all (\<lambda>r. length r = length (columns df)) (cells df))"

text \<open>
  A row that has the three fields of a ReviewRow; the value of a field (a key that is
  absent reads as a missing value); the prompt and the AnalysisResult the specification
  describes for a row; and the outcomes the service gives, and the state it ends in,
  when it is called once per prompt, in order.
\<close>

definition has_fields :: "pystr \<Rightarrow> row \<Rightarrow> bool" where
  "has_fields review_col r =
     (map_of r (ustr ''product_name'') \<noteq> None \<and> map_of r review_col \<noteq> None
      \<and> map_of r (ustr ''rating'') \<noteq> None)"

definition cell_of :: "row \<Rightarrow> pystr \<Rightarrow> cell" where
  "cell_of r key = (case map_of r key of Some v \<Rightarrow> v | None \<Rightarrow> NaN)"

definition prompt_for :: "pystr \<Rightarrow> row \<Rightarrow> pystr" where
  "prompt_for review_col r =
     prompt_head @ py_str (cell_of r review_col) @ prompt_middle
       @ py_str (cell_of r (ustr ''rating'')) @ prompt_tail"

definition expected_result :: "pystr \<Rightarrow> row \<Rightarrow> pystr \<Rightarrow> pydict" where
  "expected_result review_col r a =
     [(ustr ''product_name'', cell_of r (ustr ''product_name'')),
      (ustr ''review'', cell_of r review_col),
      (ustr ''rating'', cell_of r (ustr ''rating'')),
      (ustr ''analysis'', StrCell a)]"




text \<open>
  The scenario of the specification: columns product_name, review_text, rating and the
  rows (Shoe A, Great fit, 5) and (Shoe B, Too tight, 2); a service that always raises,
  and one that answers the first call and raises on every later one (its state counts
  the calls).
\<close>

definition shoes :: dataframe where
  "shoes = \<lparr>columns = [ustr ''product_name'', ustr ''review_text'', ustr ''rating''],
            cells = [[StrCell (ustr ''Shoe A''), StrCell (ustr ''Great fit''), IntCell 5],
                     [StrCell (ustr ''Shoe B''), StrCell (ustr ''Too tight''), IntCell 2]]\<rparr>"

text \<open>A table with no rating column, and one row.\<close>

definition unrated :: dataframe where
  "unrated = \<lparr>columns = [ustr ''product_name'', ustr ''review''],
              cells = [[StrCell (ustr ''Shoe A''), StrCell (ustr ''Great fit'')]]\<rparr>"

definition start :: "'s \<Rightarrow> 's world" where
  "start s = \<lparr>service_state = s, clock_ms = 0, progress_bar = (0, 1), status_text = []\<rparr>"

definition always_failing :: "unit service" where
  "always_failing = (\<lambda>s p. (Inl (ustr ''quota exceeded''), s))"




section \<open>The result table and its CSV (app.py, lines 118 to 129)\<close>

text \<open>
  \<^verbatim>\<open>pd.DataFrame(results)\<close> for a list of dictionaries: the columns are the keys, in
  the order in which they first appear; a dictionary without a key gives a missing
  value. An empty list has no keys, so the table has no columns. Each cell is kept as
  it is: the columns of the results hold what the columns of the uploaded table held,
  which are of one pandas type each, so that no value is converted on the way.
\<close>

fun add_keys :: "pystr list \<Rightarrow> pystr list \<Rightarrow> pystr list" where
  "add_keys seen [] = seen"
| "add_keys seen (k # ks) = add_keys (if k \<in> set seen then seen else seen @ [k]) ks"

definition DataFrame :: "pydict list \<Rightarrow> dataframe" where
  "DataFrame records =
     (let cols = foldl add_keys [] (map (map fst) records)
      in \<lparr>columns = cols, cells = map (\<lambda>d. map (cell_of d) cols) records\<rparr>)"

text \<open>
  The text \<^verbatim>\<open>to_csv\<close> writes for a cell: the empty text for a missing value
  (\<^verbatim>\<open>na_rep=''\<close>), \<^verbatim>\<open>str\<close> of the value otherwise.
\<close>

fun csv_text :: "cell \<Rightarrow> pystr" where
  "csv_text NaN = []"
| "csv_text (BoolCell b) = py_str (BoolCell b)"
| "csv_text (IntCell i) = py_str (IntCell i)"
| "csv_text (FloatCell s) = s"
| "csv_text (StrCell s) = s"

text \<open>
  Python's \<^verbatim>\<open>csv.writer\<close> (CPython 3.11) as pandas sets it up: comma (44) as delimiter, the double
  quote (34) as quote character, minimal quoting, quotes inside a field doubled. A
  field is quoted when it holds the delimiter, the quote character, a line feed (10), a
  carriage return (13) or a character of the line terminator. A row that consists of
  one empty field is written as two quote characters.
\<close>

definition csv_special :: "pystr \<Rightarrow> nat \<Rightarrow> bool" where
  "csv_special lineterminator c =
     (c = 44 \<or> c = 34 \<or> c = 10 \<or> c = 13 \<or> c \<in> set lineterminator)"

fun double_quotes :: "pystr \<Rightarrow> pystr" where
  "double_quotes [] = []"
| "double_quotes (c # cs) = (if c = 34 then 34 # 34 # double_quotes cs else c # double_quotes cs)"

definition csv_field :: "pystr \<Rightarrow> pystr \<Rightarrow> pystr" where
  "csv_field lineterminator f =
     (if list_ex (csv_special lineterminator) f then [34] @ double_quotes f @ [34] else f)"

fun join :: "pystr \<Rightarrow> pystr list \<Rightarrow> pystr" where
  "join sep [] = []"
| "join sep [f] = f"
| "join sep (f # g # fs) = f @ sep @ join sep (g # fs)"

definition writerow :: "pystr \<Rightarrow> pystr list \<Rightarrow> pystr" where
  "writerow lineterminator fs =
     (if fs = [[]] then [34, 34] else join [44] (map (csv_field lineterminator) fs))
       @ lineterminator"

text \<open>
  \<^verbatim>\<open>DataFrame.to_csv(index=...)\<close> into a string: the header row of column names (after
  an empty label for the index when it is written), then one row per row of the table
  (after its number when the index is written).
\<close>

definition to_csv :: "pystr \<Rightarrow> bool \<Rightarrow> dataframe \<Rightarrow> pystr" where
  "to_csv lineterminator index df =
     writerow lineterminator ((if index then [[]] else []) @ columns df)
       @ concat (map (\<lambda>(i, r). writerow lineterminator
                                 ((if index then [str_nat i] else []) @ map csv_text r))
                   (enumerate 0 (cells df)))"

text \<open>\<^verbatim>\<open>os.linesep\<close>, which pandas takes as line terminator; a line feed on POSIX.\<close>

definition os_linesep :: pystr where
  "os_linesep = [10]"

text \<open>
  \<^verbatim>\<open>str.encode("utf-8")\<close>: bytes as numbers below 256; a surrogate code point raises.
\<close>

definition utf8_char :: "nat \<Rightarrow> error + nat list" where
  "utf8_char c =
     (if c < 128 then Inr [c]
      else if c < 2048 then Inr [192 + c div 64, 128 + c mod 64]
      else if 55296 \<le> c \<and> c < 57344 then Inl (UnicodeEncodeError c)
      else if c < 65536 then Inr [224 + c div 4096, 128 + c div 64 mod 64, 128 + c mod 64]
      else Inr [240 + c div 262144, 128 + c div 4096 mod 64, 128 + c div 64 mod 64,
                128 + c mod 64])"

fun encode_utf8 :: "pystr \<Rightarrow> error + nat list" where
  "encode_utf8 [] = Inr []"
| "encode_utf8 (c # cs) =
     (case utf8_char c of
        Inl e \<Rightarrow> Inl e
      | Inr b \<Rightarrow> (case encode_utf8 cs of Inl e \<Rightarrow> Inl e | Inr bs \<Rightarrow> Inr (b @ bs)))"

text \<open>Lines 118 and 129 together: the bytes offered for download.\<close>

definition download_csv :: "pydict list \<Rightarrow> error + nat list" where
  "download_csv results = encode_utf8 (to_csv os_linesep False (DataFrame results))"

text \<open>The click on the button, from the loop to the download.\<close>

definition run_analysis ::
  "'s service \<Rightarrow> dataframe \<Rightarrow> pystr \<Rightarrow> 's world
     \<Rightarrow> error + pydict list \<times> nat list \<times> 's world" where
  "run_analysis gen df review_col w =
     (case analyze gen df review_col w of
        Inl e \<Rightarrow> Inl e
      | Inr (results, w') \<Rightarrow>
          (case download_csv results of
             Inl e \<Rightarrow> Inl e
           | Inr csv \<Rightarrow> Inr (results, csv, w')))"

text \<open>
  The page as a whole (lines 49 to 135): nothing happens without an upload; without a
  review column the error is shown and the button is never offered; the analysis runs
  when the button is clicked, and an exception that leaves it ends the run.
\<close>

datatype 's page =
  NoUpload
  | NoReviewColumn resolve_error
  | ButtonShown pystr
  | Raised error
  | Download "pydict list" "nat list" "'s world"

definition app :: "'s service \<Rightarrow> dataframe option \<Rightarrow> bool \<Rightarrow> 's world \<Rightarrow> 's page" where
  "app gen uploaded_file clicked w =
     (case uploaded_file of
        None \<Rightarrow> NoUpload
      | Some df \<Rightarrow>
          (case resolve (columns df) of
             Inl e \<Rightarrow> NoReviewColumn e
           | Inr review_col \<Rightarrow>
               if clicked then
                 (case run_analysis gen df review_col w of
                    Inl e \<Rightarrow> Raised e
                  | Inr (results, csv, w') \<Rightarrow> Download results csv w')
               else ButtonShown review_col))"

text \<open>What a run leaves to its user: the results and the bytes, or the exception.\<close>

definition output_of ::
  "error + pydict list \<times> nat list \<times> 's world \<Rightarrow> error + pydict list \<times> nat list" where
  "output_of run = map_sum id (\<lambda>(results, csv, w'). (results, csv)) run"

text \<open>A table with the expected columns and no row, as a CSV with only a header gives.\<close>

definition no_reviews :: dataframe where
  "no_reviews = \<lparr>columns = [ustr ''product_name'', ustr ''review'', ustr ''rating''],
                 cells = []\<rparr>"

text \<open>An AnalysisResult: a dictionary with exactly the four keys, in the order written.\<close>

definition is_result :: "pydict \<Rightarrow> bool" where
  "is_result d =
     (map fst d = [ustr ''product_name'', ustr ''review'', ustr ''rating'', ustr ''analysis''])"

definition csv_header :: pystr where
  "csv_header = ustr ''product_name,review,rating,analysis''"

section \<open>Reading a CSV back (line 52, \<^verbatim>\<open>pd.read_csv\<close>)\<close>

text \<open>
  What \<^verbatim>\<open>pd.read_csv\<close> does with its default options before it guesses the type of
  each column: the bytes are decoded as strict UTF-8 and cut into records of text
  fields. The tokenizer is the state machine of the pandas parser: comma-separated
  fields, a field in double quotes may hold commas, line breaks and doubled quotes,
  a record ends at a line feed, a carriage return or both, and a line that is empty
  or holds only blanks and tabs is skipped. The first record is the header; a file
  with no record has no columns to parse.
\<close>

datatype read_error = UnicodeDecodeError | ParserError | EmptyDataError

definition continuation :: "nat \<Rightarrow> bool" where
  "continuation b = (128 \<le> b \<and> b < 192)"

fun decode_utf8 :: "nat list \<Rightarrow> read_error + pystr" where
  "decode_utf8 [] = Inr []"
| "decode_utf8 (b0 # bs) =
     (if b0 < 128 then
        (case decode_utf8 bs of Inl e \<Rightarrow> Inl e | Inr s \<Rightarrow> Inr (b0 # s))
      else if 194 \<le> b0 \<and> b0 < 224 then
        (case bs of
           b1 # r \<Rightarrow>
             if continuation b1 then
               (case decode_utf8 r of
                  Inl e \<Rightarrow> Inl e
                | Inr s \<Rightarrow> Inr (((b0 - 192) * 64 + (b1 - 128)) # s))
             else Inl UnicodeDecodeError
         | _ \<Rightarrow> Inl UnicodeDecodeError)
      else if 224 \<le> b0 \<and> b0 < 240 then
        (case bs of
           b1 # b2 # r \<Rightarrow>
             (let c = (b0 - 224) * 4096 + (b1 - 128) * 64 + (b2 - 128)
              in if continuation b1 \<and> continuation b2 \<and> 2048 \<le> c
                    \<and> \<not> (55296 \<le> c \<and> c < 57344) then
                   (case decode_utf8 r of Inl e \<Rightarrow> Inl e | Inr s \<Rightarrow> Inr (c # s))
                 else Inl UnicodeDecodeError)
         | _ \<Rightarrow> Inl UnicodeDecodeError)
      else if 240 \<le> b0 \<and> b0 < 245 then
        (case bs of
           b1 # b2 # b3 # r \<Rightarrow>
             (let c = (b0 - 240) * 262144 + (b1 - 128) * 4096 + (b2 - 128) * 64 + (b3 - 128)
              in if continuation b1 \<and> continuation b2 \<and> continuation b3 \<and> 65536 \<le> c
                    \<and> c < 1114112 then
                   (case decode_utf8 r of Inl e \<Rightarrow> Inl e | Inr s \<Rightarrow> Inr (c # s))
                 else Inl UnicodeDecodeError)
         | _ \<Rightarrow> Inl UnicodeDecodeError)
      else Inl UnicodeDecodeError)"

datatype parser_state =
  START_RECORD | START_FIELD | IN_FIELD | IN_QUOTED_FIELD | QUOTE_IN_QUOTED_FIELD
  | EAT_CRNL | EAT_CRNL_NOP | WHITESPACE_LINE

text \<open>
  The tokenizer's state: the state of the machine, the characters of the field being
  read (in \<open>WHITESPACE_LINE\<close>, the blanks read since the line began), the fields of the
  record being read, and the records finished.
\<close>

record tokenizer =
  tk_state :: parser_state
  tk_field :: pystr
  tk_line :: "pystr list"
  tk_lines :: "pystr list list"

definition push_char :: "nat \<Rightarrow> tokenizer \<Rightarrow> tokenizer" where
  "push_char c t = t\<lparr>tk_field := tk_field t @ [c]\<rparr>"

definition end_field :: "tokenizer \<Rightarrow> tokenizer" where
  "end_field t = t\<lparr>tk_line := tk_line t @ [tk_field t], tk_field := []\<rparr>"

definition end_line :: "tokenizer \<Rightarrow> tokenizer" where
  "end_line t = t\<lparr>tk_lines := tk_lines t @ [tk_line t], tk_line := [], tk_state := START_RECORD\<rparr>"

definition in_field :: "nat \<Rightarrow> tokenizer \<Rightarrow> tokenizer" where
  "in_field c t =
     (if c = 10 then end_line (end_field t)
      else if c = 13 then (end_field t)\<lparr>tk_state := EAT_CRNL\<rparr>
      else if c = 44 then (end_field t)\<lparr>tk_state := START_FIELD\<rparr>
      else (push_char c t)\<lparr>tk_state := IN_FIELD\<rparr>)"

definition start_field :: "nat \<Rightarrow> tokenizer \<Rightarrow> tokenizer" where
  "start_field c t =
     (if c = 34 then t\<lparr>tk_state := IN_QUOTED_FIELD\<rparr> else in_field c t)"

definition start_record :: "nat \<Rightarrow> tokenizer \<Rightarrow> tokenizer" where
  "start_record c t =
     (if c = 10 then t\<lparr>tk_state := START_RECORD\<rparr>
      else if c = 13 then t\<lparr>tk_state := EAT_CRNL_NOP\<rparr>
      else if c = 32 \<or> c = 9 then t\<lparr>tk_field := [c], tk_state := WHITESPACE_LINE\<rparr>
      else start_field c t)"

text \<open>
  In \<open>WHITESPACE_LINE\<close> a character that is neither blank nor a line end makes the
  parser go back to the start of the line and read it as an ordinary record: the blanks
  read so far open its first field.
\<close>

definition tokenize_step :: "nat \<Rightarrow> tokenizer \<Rightarrow> tokenizer" where
  "tokenize_step c t =
     (case tk_state t of
        START_RECORD \<Rightarrow> start_record c t
      | START_FIELD \<Rightarrow> start_field c t
      | IN_FIELD \<Rightarrow> in_field c t
      | IN_QUOTED_FIELD \<Rightarrow>
          (if c = 34 then t\<lparr>tk_state := QUOTE_IN_QUOTED_FIELD\<rparr> else push_char c t)
      | QUOTE_IN_QUOTED_FIELD \<Rightarrow>
          (if c = 34 then (push_char c t)\<lparr>tk_state := IN_QUOTED_FIELD\<rparr> else in_field c t)
      | EAT_CRNL \<Rightarrow> (if c = 10 then end_line t else start_record c (end_line t))
      | EAT_CRNL_NOP \<Rightarrow>
          (if c = 10 \<or> c = 13 then t\<lparr>tk_state := START_RECORD\<rparr>
           else start_record c (t\<lparr>tk_state := START_RECORD\<rparr>))
      | WHITESPACE_LINE \<Rightarrow>
          (if c = 10 then t\<lparr>tk_field := [], tk_state := START_RECORD\<rparr>
           else if c = 13 then t\<lparr>tk_field := [], tk_state := EAT_CRNL_NOP\<rparr>
           else if c = 32 \<or> c = 9 then push_char c t
           else in_field c t))"

fun tokenize :: "tokenizer \<Rightarrow> pystr \<Rightarrow> tokenizer" where
  "tokenize t [] = t"
| "tokenize t (c # cs) = tokenize (tokenize_step c t) cs"

definition handle_eof :: "tokenizer \<Rightarrow> read_error + pystr list list" where
  "handle_eof t =
     (case tk_state t of
        START_RECORD \<Rightarrow> Inr (tk_lines t)
      | WHITESPACE_LINE \<Rightarrow> Inr (tk_lines t)
      | EAT_CRNL_NOP \<Rightarrow> Inr (tk_lines t)
      | IN_QUOTED_FIELD \<Rightarrow> Inl ParserError
      | EAT_CRNL \<Rightarrow> Inr (tk_lines (end_line t))
      | _ \<Rightarrow> Inr (tk_lines (end_line (end_field t))))"

definition tokenizer_init :: tokenizer where
  "tokenizer_init = \<lparr>tk_state = START_RECORD, tk_field = [], tk_line = [], tk_lines = []\<rparr>"

definition read_csv_text :: "nat list \<Rightarrow> read_error + pystr list \<times> pystr list list" where
  "read_csv_text bytes =
     (case decode_utf8 bytes of
        Inl e \<Rightarrow> Inl e
      | Inr s \<Rightarrow>
          (case handle_eof (tokenize tokenizer_init s) of
             Inl e \<Rightarrow> Inl e
           | Inr [] \<Rightarrow> Inl EmptyDataError
           | Inr (header # records) \<Rightarrow> Inr (header, records)))"




text \<open>A field that the writer leaves unquoted under the line terminator of POSIX.\<close>

definition plain :: "pystr \<Rightarrow> bool" where
  "plain f = (\<forall>c\<in>set f. c \<noteq> 44 \<and> c \<noteq> 34 \<and> c \<noteq> 10 \<and> c \<noteq> 13)"

section \<open>The column resolver\<close>

lemma detect_review_col_find:
  "detect_review_col cands cols = List.find (\<lambda>c. c \<in> set cols) cands"
  by (induction cands) simp_all

lemma detect_review_col_None:
  "detect_review_col cands cols = None \<longleftrightarrow> set cands \<inter> set cols = {}"
  by (induction cands) auto

lemma detect_review_col_Some:
  "detect_review_col cands cols = Some c \<longleftrightarrow>
     (\<exists>pre post. cands = pre @ c # post \<and> c \<in> set cols \<and> set pre \<inter> set cols = {})"
proof (induction cands)
  case Nil
  then show ?case by simp
next
  case (Cons a cands)
  show ?case
  proof (cases "a \<in> set cols")
    case True
    have "(\<exists>pre post. a # cands = pre @ c # post \<and> c \<in> set cols \<and> set pre \<inter> set cols = {})
            \<longleftrightarrow> a = c"
    proof
      assume "\<exists>pre post. a # cands = pre @ c # post \<and> c \<in> set cols \<and> set pre \<inter> set cols = {}"
      then obtain pre post where h: "a # cands = pre @ c # post" "set pre \<inter> set cols = {}"
        by blast
      show "a = c"
      proof (cases pre)
        case Nil
        with h show ?thesis by simp
      next
        case (Cons p ps)
        with h True show ?thesis by auto
      qed
    next
      assume "a = c"
      with True have "a # cands = [] @ c # cands \<and> c \<in> set cols \<and> set [] \<inter> set cols = {}"
        by simp
      then show "\<exists>pre post. a # cands = pre @ c # post \<and> c \<in> set cols \<and> set pre \<inter> set cols = {}"
        by blast
    qed
    with True show ?thesis by simp
  next
    case False
    have "(\<exists>pre post. a # cands = pre @ c # post \<and> c \<in> set cols \<and> set pre \<inter> set cols = {})
            \<longleftrightarrow> (\<exists>pre post. cands = pre @ c # post \<and> c \<in> set cols \<and> set pre \<inter> set cols = {})"
    proof
      assume "\<exists>pre post. a # cands = pre @ c # post \<and> c \<in> set cols \<and> set pre \<inter> set cols = {}"
      then obtain pre post where h: "a # cands = pre @ c # post" "c \<in> set cols"
          "set pre \<inter> set cols = {}"
        by blast
      show "\<exists>pre post. cands = pre @ c # post \<and> c \<in> set cols \<and> set pre \<inter> set cols = {}"
      proof (cases pre)
        case Nil
        with h False show ?thesis by simp
      next
        case (Cons p ps)
        with h have "cands = ps @ c # post" "set ps \<inter> set cols = {}" by auto
        with h(2) show ?thesis by blast
      qed
    next
      assume "\<exists>pre post. cands = pre @ c # post \<and> c \<in> set cols \<and> set pre \<inter> set cols = {}"
      then obtain pre post where h: "cands = pre @ c # post" "c \<in> set cols"
          "set pre \<inter> set cols = {}"
        by blast
      with False have "a # cands = (a # pre) @ c # post \<and> c \<in> set cols
          \<and> set (a # pre) \<inter> set cols = {}"
        by simp
      then show "\<exists>pre post. a # cands = pre @ c # post \<and> c \<in> set cols \<and> set pre \<inter> set cols = {}"
        by blast
    qed
    with False Cons.IH show ?thesis by simp
  qed
qed


lemma possible_review_cols_distinct: "distinct possible_review_cols"
  by (simp add: possible_review_cols_def ustr_def)



text \<open>
  C4. When none of the four candidate names is a column (the table may have no column
  at all), the resolver fails, and the failure carries exactly the list of the
  table's columns; no column is picked.
\<close>

theorem C4_resolver_not_found:
  assumes "set cols \<inter> set possible_review_cols = {}"
  shows "resolve cols = Inl (ColumnNotFoundError cols)"
proof -
  from assms have "detect_review_col possible_review_cols cols = None"
    by (auto simp: detect_review_col_None)
  then show ?thesis
    by (simp add: resolve_def)
qed

theorem C4_resolver_not_found_witness:
  "resolve [ustr ''product_name'', ustr ''Review'', ustr ''rating'']
     = Inl (ColumnNotFoundError [ustr ''product_name'', ustr ''Review'', ustr ''rating''])
   \<and> resolve [] = Inl (ColumnNotFoundError [])"
proof -
  have a: "set [ustr ''product_name'', ustr ''Review'', ustr ''rating'']
             \<inter> set possible_review_cols = {}"
    by (simp add: possible_review_cols_def ustr_def)
  have b: "set ([] :: pystr list) \<inter> set possible_review_cols = {}"
    by simp
  from C4_resolver_not_found [OF a] C4_resolver_not_found [OF b] show ?thesis
    by simp
qed

section \<open>The review analyzer\<close>

lemma build_prompt_ok:
  "has_fields col r \<Longrightarrow> build_prompt col r = Inr (prompt_for col r)"
  by (auto simp: has_fields_def build_prompt_def prompt_for_def getitem_def cell_of_def)

lemma make_result_ok:
  "has_fields col r \<Longrightarrow> make_result col r a = Inr (expected_result col r a)"
  by (auto simp: has_fields_def make_result_def expected_result_def getitem_def cell_of_def)
























lemma build_prompt_partial:
  "map_of r col \<noteq> None \<Longrightarrow>
     build_prompt col r =
       (if map_of r (ustr ''rating'') = None then Inl (KeyError (ustr ''rating''))
        else Inr (prompt_for col r))"
  by (auto simp: build_prompt_def getitem_def prompt_for_def cell_of_def)

lemma make_result_no_product_name:
  "map_of r (ustr ''product_name'') = None \<Longrightarrow>
     make_result col r a = Inl (KeyError (ustr ''product_name''))"
  by (simp add: make_result_def getitem_def)

lemma analysis_loop_abort:
  assumes "\<forall>r\<in>set rows. map_of r col \<noteq> None"
    and "\<exists>r\<in>set rows. map_of r (ustr ''product_name'') = None \<or> map_of r (ustr ''rating'') = None"
  shows "analysis_loop gen col n i rows acc w = Inl (KeyError (ustr ''product_name''))
       \<or> analysis_loop gen col n i rows acc w = Inl (KeyError (ustr ''rating''))"
  using assms
proof (induction rows arbitrary: i acc w)
  case Nil
  then show ?case by simp
next
  case (Cons r rows)
  then have c: "map_of r col \<noteq> None" and cs: "\<forall>r\<in>set rows. map_of r col \<noteq> None"
    by simp_all
  show ?case
  proof (cases "map_of r (ustr ''rating'') = None")
    case True
    then show ?thesis
      by (simp add: build_prompt_partial [OF c])
  next
    case rating: False
    obtain outcome s' where g: "gen (service_state w) (prompt_for col r) = (outcome, s')"
      by (cases "gen (service_state w) (prompt_for col r)")
    show ?thesis
    proof (cases "map_of r (ustr ''product_name'') = None")
      case True
      then show ?thesis
        using rating g by (simp add: build_prompt_partial [OF c] make_result_no_product_name)
    next
      case False
      with rating c have hr: "has_fields col r"
        by (simp add: has_fields_def)
      from False rating Cons.prems(2)
      have later: "\<exists>r\<in>set rows. map_of r (ustr ''product_name'') = None
                      \<or> map_of r (ustr ''rating'') = None"
        by auto
      let ?w = "w\<lparr>service_state := s', progress_bar := (i + 1, n),
                   status_text := processed_text (i + 1) n, clock_ms := clock_ms w + 500\<rparr>"
      have step: "analysis_loop gen col n i (r # rows) acc w =
          analysis_loop gen col n (i + 1) rows (acc @ [expected_result col r (analysis_of outcome)]) ?w"
        using g by (simp add: build_prompt_ok [OF hr] make_result_ok [OF hr])
      from Cons.IH [OF cs later, of "i + 1" "acc @ [expected_result col r (analysis_of outcome)]" ?w]
      show ?thesis
        unfolding step .
    qed
  qed
qed

text \<open>
  C9. If some row of the table lacks product_name or rating (the resolved column being
  present in every row), the run ends with the KeyError of the missing field, whatever
  the service answers: no result list is produced, and the failure is not turned into
  an analysis text the way a failure of the service is.
\<close>

theorem C9_missing_field_aborts:
  assumes "\<forall>r\<in>set (iterrows df). map_of r review_col \<noteq> None"
    and "\<exists>r\<in>set (iterrows df).
           map_of r (ustr ''product_name'') = None \<or> map_of r (ustr ''rating'') = None"
  shows "analyze gen df review_col w = Inl (KeyError (ustr ''product_name''))
       \<or> analyze gen df review_col w = Inl (KeyError (ustr ''rating''))"
  unfolding analyze_def
  using assms by (rule analysis_loop_abort)

lemma unrated_rows:
  "iterrows unrated =
     [[(ustr ''product_name'', StrCell (ustr ''Shoe A'')),
       (ustr ''review'', StrCell (ustr ''Great fit''))]]"
  by (simp add: unrated_def iterrows_def)

theorem C9_missing_field_aborts_witness:
  "analyze always_failing unrated (ustr ''review'') (start ()) = Inl (KeyError (ustr ''rating''))"
proof -
  have a: "\<forall>r\<in>set (iterrows unrated). map_of r (ustr ''review'') \<noteq> None"
    by (simp add: unrated_rows ustr_def)
  have b: "\<exists>r\<in>set (iterrows unrated).
           map_of r (ustr ''product_name'') = None \<or> map_of r (ustr ''rating'') = None"
    by (simp add: unrated_rows ustr_def)
  have c: "analyze always_failing unrated (ustr ''review'') (start ())
             \<noteq> Inl (KeyError (ustr ''product_name''))"
    by (simp add: analyze_def unrated_rows build_prompt_def getitem_def ustr_def)
  from C9_missing_field_aborts [OF a b, of always_failing "start ()"] c show ?thesis
    by blast
qed

subsection \<open>From the uploaded table to the analyzer's assumptions\<close>

lemma wf_frame_row_keys:
  assumes "wf_frame df" and "r \<in> set (iterrows df)"
  shows "map_of r key \<noteq> None \<longleftrightarrow> key \<in> set (columns df)"
proof -
  from assms(2) obtain cs where cs: "cs \<in> set (cells df)" "r = zip (columns df) cs"
    by (auto simp: iterrows_def)
  with assms(1) have len: "length cs = length (columns df)"
    by (auto simp: wf_frame_def list_all_iff)
  have "map fst r = columns df"
    using cs(2) len by simp
  then have "fst ` set r = set (columns df)"
    by (metis set_map)
  then show ?thesis
    by (simp add: map_of_eq_None_iff)
qed

lemma resolve_in_columns: "resolve cols = Inr c \<Longrightarrow> c \<in> set cols"
  by (auto simp: resolve_def detect_review_col_Some split: option.splits)

lemma wf_frame_has_fields:
  assumes "wf_frame df" and "resolve (columns df) = Inr review_col"
    and "ustr ''product_name'' \<in> set (columns df)" and "ustr ''rating'' \<in> set (columns df)"
  shows "\<forall>r\<in>set (iterrows df). has_fields review_col r"
proof
  fix r assume r: "r \<in> set (iterrows df)"
  note keys = wf_frame_row_keys [OF assms(1) r]
  show "has_fields review_col r"
    unfolding has_fields_def keys
    using assms(3,4) resolve_in_columns [OF assms(2)] by simp
qed

lemma make_result_is_result: "make_result col r a = Inr d \<Longrightarrow> is_result d"
  by (auto simp: make_result_def is_result_def split: sum.splits)

lemma analysis_loop_results:
  "analysis_loop gen col n i rows acc w = Inr (results, w') \<Longrightarrow>
     \<forall>d\<in>set acc. is_result d \<Longrightarrow> \<forall>d\<in>set results. is_result d"
proof (induction rows arbitrary: i acc w)
  case Nil
  then show ?case by simp
next
  case (Cons r rows)
  from Cons.prems(1) obtain prompt where p: "build_prompt col r = Inr prompt"
    by (cases "build_prompt col r") simp_all
  obtain outcome s' where g: "gen (service_state w) prompt = (outcome, s')"
    by (cases "gen (service_state w) prompt")
  from Cons.prems(1) p g obtain result where m: "make_result col r (analysis_of outcome) = Inr result"
    by (cases "make_result col r (analysis_of outcome)") simp_all
  let ?w = "w\<lparr>service_state := s', progress_bar := (i + 1, n),
               status_text := processed_text (i + 1) n, clock_ms := clock_ms w + 500\<rparr>"
  from Cons.prems(1) p g m
  have run: "analysis_loop gen col n (i + 1) rows (acc @ [result]) ?w = Inr (results, w')"
    by simp
  have "\<forall>d\<in>set (acc @ [result]). is_result d"
    using Cons.prems(2) make_result_is_result [OF m] by simp
  with run show ?case
    by (rule Cons.IH)
qed

lemma analyze_results:
  "analyze gen df col w = Inr (results, w') \<Longrightarrow> \<forall>d\<in>set results. is_result d"
  unfolding analyze_def by (erule analysis_loop_results) simp

section \<open>The result assembler\<close>










lemma download_csv_empty: "download_csv [] = Inr [10]"
  by (simp add: download_csv_def DataFrame_def to_csv_def writerow_def os_linesep_def utf8_char_def)

lemma encoded_header:
  "encode_utf8 (csv_header @ os_linesep)
     = Inr [112, 114, 111, 100, 117, 99, 116, 95, 110, 97, 109, 101, 44, 114, 101, 118, 105,
            101, 119, 44, 114, 97, 116, 105, 110, 103, 44, 97, 110, 97, 108, 121, 115, 105,
            115, 10]"
  by (simp add: csv_header_def os_linesep_def ustr_def utf8_char_def)

text \<open>
  C6, at the empty sequence of results. The claim asks, for every sequence, for the
  header row product_name,review,rating,analysis followed by one row per result. For
  the empty sequence the bytes offered for download are a single line feed: the table
  built from an empty list has no columns, so the header row is empty. For a non-empty
  sequence the claim holds (\<open>to_csv_results\<close> above).
\<close>

theorem C6_header_missing_for_empty_sequence:
  "download_csv [] = Inr [10]
   \<and> download_csv [] \<noteq> encode_utf8 (csv_header @ os_linesep @ concat (map (\<lambda>d. writerow os_linesep (map (csv_text \<circ> snd) d)) []))"
  by (simp add: download_csv_empty encoded_header)

lemma analyze_no_rows:
  "cells df = [] \<Longrightarrow>
     analyze gen df col w = Inr ([], w\<lparr>progress_bar := (0, 1), status_text := []\<rparr>)"
  by (simp add: analyze_def iterrows_def)

text \<open>
  C7, on a table with the columns product_name, review, rating and no row. The column
  review is resolved, the analyzer returns the empty list of results without calling the
  service, and the bytes offered for download are a single line feed, not the header
  row product_name,review,rating,analysis.
\<close>

theorem C7_zero_rows_give_no_header:
  "resolve (columns no_reviews) = Inr (ustr ''review'')
   \<and> analyze gen no_reviews (ustr ''review'') w
        = Inr ([], w\<lparr>progress_bar := (0, 1), status_text := []\<rparr>)
   \<and> run_analysis gen no_reviews (ustr ''review'') w
        = Inr ([], [10], w\<lparr>progress_bar := (0, 1), status_text := []\<rparr>)
   \<and> encode_utf8 (csv_header @ os_linesep) \<noteq> Inr [10]"
proof -
  have a: "resolve (columns no_reviews) = Inr (ustr ''review'')"
    by (simp add: resolve_def no_reviews_def possible_review_cols_def)
  have c: "cells no_reviews = []"
    by (simp add: no_reviews_def)
  have b: "analyze gen no_reviews (ustr ''review'') w
        = Inr ([], w\<lparr>progress_bar := (0, 1), status_text := []\<rparr>)"
    using c by (rule analyze_no_rows)
  have d: "run_analysis gen no_reviews (ustr ''review'') w
        = Inr ([], [10], w\<lparr>progress_bar := (0, 1), status_text := []\<rparr>)"
    by (simp add: run_analysis_def b download_csv_empty)
  have e: "encode_utf8 (csv_header @ os_linesep) \<noteq> Inr [10]"
    by (simp add: encoded_header)
  from a b d e show ?thesis
    by (intro conjI)
qed

section \<open>The pipeline as a whole\<close>

lemma analysis_loop_deterministic:
  assumes "\<forall>s s' p. fst (gen s p) = fst (gen s' p)"
  shows "map_sum id fst (analysis_loop gen col n1 i1 rows acc w1)
       = map_sum id fst (analysis_loop gen col n2 i2 rows acc w2)"
proof (induction rows arbitrary: i1 i2 acc w1 w2)
  case Nil
  show ?case by simp
next
  case (Cons r rows)
  show ?case
  proof (cases "build_prompt col r")
    case (Inl e)
    then show ?thesis by simp
  next
    case (Inr prompt)
    obtain o1 s1 where g1: "gen (service_state w1) prompt = (o1, s1)"
      by (cases "gen (service_state w1) prompt")
    obtain o2 s2 where g2: "gen (service_state w2) prompt = (o2, s2)"
      by (cases "gen (service_state w2) prompt")
    have same: "o1 = o2"
      using assms [rule_format, of "service_state w1" prompt "service_state w2"] g1 g2 by simp
    show ?thesis
    proof (cases "make_result col r (analysis_of o1)")
      case (Inl e)
      then show ?thesis
        using Inr g1 g2 same by simp
    next
      case res: (Inr result)
      show ?thesis
        using Inr g1 g2 same res
          Cons.IH [of "i1 + 1" "acc @ [result]"
            "w1\<lparr>service_state := s1, progress_bar := (i1 + 1, n1),
                 status_text := processed_text (i1 + 1) n1, clock_ms := clock_ms w1 + 500\<rparr>"
            "i2 + 1"
            "w2\<lparr>service_state := s2, progress_bar := (i2 + 1, n2),
                 status_text := processed_text (i2 + 1) n2, clock_ms := clock_ms w2 + 500\<rparr>"]
        by simp
    qed
  qed
qed

lemma analysis_loop_clock:
  "analysis_loop gen col n i rows acc w = Inr (results, w') \<Longrightarrow>
     clock_ms w' = clock_ms w + 500 * length rows"
proof (induction rows arbitrary: i acc w)
  case Nil
  then show ?case by simp
next
  case (Cons r rows)
  from Cons.prems obtain prompt where p: "build_prompt col r = Inr prompt"
    by (cases "build_prompt col r") simp_all
  obtain outcome s' where g: "gen (service_state w) prompt = (outcome, s')"
    by (cases "gen (service_state w) prompt")
  from Cons.prems p g obtain result where m: "make_result col r (analysis_of outcome) = Inr result"
    by (cases "make_result col r (analysis_of outcome)") simp_all
  let ?w = "w\<lparr>service_state := s', progress_bar := (i + 1, n),
               status_text := processed_text (i + 1) n, clock_ms := clock_ms w + 500\<rparr>"
  from Cons.prems p g m
  have "analysis_loop gen col n (i + 1) rows (acc @ [result]) ?w = Inr (results, w')"
    by simp
  from Cons.IH [OF this] show ?case
    by simp
qed

text \<open>
  C10. Let the outcome of the service depend on the prompt alone. Then two runs on the
  same table and resolved column leave the same results and the same bytes (or raise
  the same exception), whatever the clock, the progress bar, the status line and the
  state of the service are when each run starts. The delay only moves the clock: a run
  that completes ends half a second per row later than it started.
\<close>

theorem C10_pipeline_deterministic:
  assumes "\<forall>s s' p. fst (gen s p) = fst (gen s' p)"
  shows "output_of (run_analysis gen df review_col w1)
           = output_of (run_analysis gen df review_col w2)
       \<and> (\<forall>results csv w'. run_analysis gen df review_col w1 = Inr (results, csv, w')
             \<longrightarrow> clock_ms w' = clock_ms w1 + 500 * length (iterrows df))"
proof -
  have loop: "map_sum id fst (analyze gen df review_col w1)
            = map_sum id fst (analyze gen df review_col w2)"
    unfolding analyze_def using assms by (rule analysis_loop_deterministic)
  have out: "output_of (run_analysis gen df review_col w1)
           = output_of (run_analysis gen df review_col w2)"
  proof (cases "analyze gen df review_col w1")
    case (Inl e)
    with loop have "analyze gen df review_col w2 = Inl e"
      by (cases "analyze gen df review_col w2") simp_all
    with Inl show ?thesis
      by (simp add: run_analysis_def)
  next
    case (Inr a)
    obtain results u1 where a: "a = (results, u1)"
      by (cases a)
    with Inr loop obtain u2 where "analyze gen df review_col w2 = Inr (results, u2)"
      by (cases "analyze gen df review_col w2") auto
    with Inr a show ?thesis
      by (cases "download_csv results") (simp_all add: run_analysis_def output_of_def)
  qed
  have clock: "\<forall>results csv w'. run_analysis gen df review_col w1 = Inr (results, csv, w')
             \<longrightarrow> clock_ms w' = clock_ms w1 + 500 * length (iterrows df)"
  proof (intro allI impI)
    fix results csv w'
    assume "run_analysis gen df review_col w1 = Inr (results, csv, w')"
    then have "analyze gen df review_col w1 = Inr (results, w')"
      by (auto simp: run_analysis_def split: sum.splits prod.splits)
    then have "clock_ms w' = clock_ms (w1\<lparr>progress_bar := (0, 1), status_text := []\<rparr>)
                 + 500 * length (iterrows df)"
      unfolding analyze_def by (rule analysis_loop_clock)
    then show "clock_ms w' = clock_ms w1 + 500 * length (iterrows df)"
      by simp
  qed
  from out clock show ?thesis
    by (intro conjI)
qed

theorem C10_pipeline_deterministic_witness:
  "output_of (run_analysis always_failing shoes (ustr ''review_text'') (start ()))
     = output_of (run_analysis always_failing shoes (ustr ''review_text'')
         \<lparr>service_state = (), clock_ms = 86400000, progress_bar = (7, 9),
            status_text = ustr ''busy''\<rparr>)"
proof -
  have "\<forall>s s' p. fst (always_failing s p) = fst (always_failing s' p)"
    by (simp add: always_failing_def)
  from C10_pipeline_deterministic [OF this] show ?thesis
    by blast
qed

lemma app_without_review_column:
  "set (columns df) \<inter> set possible_review_cols = {} \<Longrightarrow>
     app gen (Some df) clicked w = NoReviewColumn (ColumnNotFoundError (columns df))"
  by (simp add: app_def resolve_def detect_review_col_None [THEN iffD2] Int_commute)

section \<open>Reading the download back\<close>

subsection \<open>UTF-8\<close>




lemma split_64: "(c::nat) = c div 64 * 64 + c mod 64"
  by simp





subsection \<open>The tokenizer on what the writer writes\<close>



lemma plain_Nil: "plain []"
  by (simp add: plain_def)

























lemma empty_download_unreadable:
  "download_csv [] = Inr [10] \<and> read_csv_text [10] = Inl EmptyDataError"
  by (simp add: download_csv_empty read_csv_text_def tokenizer_init_def tokenize_step_def
      start_record_def handle_eof_def)









end
